theory Spec2Isabelle
  imports Complex_Main "HOL-Library.AList"
begin

section \<open>AirDataAnalyzer: the DataSet class\<close>

text \<open>
  A shallow embedding of \<^verbatim>\<open>src/AirDataAnalyzer.py\<close>. Exceptions are values of the
  type \<open>error\<close>, and a call that may raise returns \<open>error + 'a\<close>. The object's
  attributes are the fields of the record \<open>DataSet\<close>, passed in and returned.
  Concentrations are Python floats in the source; they are modelled as reals, so rounding,
  NaN and infinities are outside the model. A Python \<open>str\<close> is a \<open>string\<close> whose elements
  stand for its code points.
\<close>

subsection \<open>Values, exceptions and the object state\<close>

datatype error =
    EmptyDatasetError
  | NoMatchingItems
  | KeyError
  | TypeError
  | ValueError
  | IndexError
  | StopIteration
  | CsvError
  | OSError

datatype py_value = PyNone | PyBool bool | PyInt int | PyFloat real | PyStr string

datatype Categories = ZIP_CODE | TIME_OF_DAY

text \<open>The members of \<^verbatim>\<open>Stats\<close> carry a prefix: \<open>MIN\<close> and \<open>MAX\<close> are binders of HOL.\<close>

datatype Stats = Stats_MIN | Stats_AVG | Stats_MAX

type_synonym item = "string \<times> string \<times> real"

text \<open>A dict keeps its keys in insertion order: an association list.\<close>

type_synonym label_dict = "(string \<times> bool) list"

record DataSet =
  labels :: "Categories \<Rightarrow> label_dict"
  data :: "item list option"
  header :: string

text \<open>\<^verbatim>\<open>item[category.value]\<close>: index 0 is the zip code, index 1 the time of day.\<close>

fun field :: "Categories \<Rightarrow> item \<Rightarrow> string" where
  "field ZIP_CODE (z, t, c) = z"
| "field TIME_OF_DAY (z, t, c) = t"

definition concentration :: "item \<Rightarrow> real" where
  "concentration i = snd (snd i)"

text \<open>\<^verbatim>\<open>not self._data\<close>: true of \<^verbatim>\<open>None\<close> and of the empty list.\<close>

definition not_data :: "DataSet \<Rightarrow> bool" where
  "not_data ds = (case data ds of None \<Rightarrow> True | Some rs \<Rightarrow> rs = [])"

definition the_data :: "DataSet \<Rightarrow> item list" where
  "the_data ds = (case data ds of None \<Rightarrow> [] | Some rs \<Rightarrow> rs)"

subsection \<open>The header property\<close>

definition header_setter :: "py_value \<Rightarrow> DataSet \<Rightarrow> error + DataSet" where
  "header_setter new_header ds =
     (case new_header of
        PyStr s \<Rightarrow> if length s > 30 then Inl ValueError else Inr (ds\<lparr>header := s\<rparr>)
      | _ \<Rightarrow> Inl TypeError)"

text \<open>
  \<^verbatim>\<open>__init__\<close>: both registries empty, no data, then the header through the setter.
  The header of the record before the setter runs is never observed: when the setter
  raises, no object is constructed.
\<close>

definition DataSet_init :: "py_value \<Rightarrow> error + DataSet" where
  "DataSet_init h = header_setter h \<lparr>labels = (\<lambda>c. []), data = None, header = []\<rparr>"

subsection \<open>Label registries\<close>

text \<open>
  \<^verbatim>\<open>{i[category.value]: True for i in self._data}\<close>: each item stores its key; a key
  already present keeps its place, a new key goes to the end.
\<close>

definition dict_comp :: "Categories \<Rightarrow> item list \<Rightarrow> label_dict" where
  "dict_comp c items = foldl (\<lambda>d i. AList.update (field c i) True d) [] items"

definition initialize_labels :: "DataSet \<Rightarrow> error + DataSet" where
  "initialize_labels ds =
     (if not_data ds then Inl EmptyDatasetError
      else Inr (foldl (\<lambda>s c. s\<lparr>labels := (labels s)(c := dict_comp c (the_data s))\<rparr>)
                  ds [ZIP_CODE, TIME_OF_DAY]))"

definition get_labels :: "DataSet \<Rightarrow> Categories \<Rightarrow> error + string list" where
  "get_labels ds c =
     (if not_data ds then Inl EmptyDatasetError else Inr (map fst (labels ds c)))"

definition get_active_labels :: "DataSet \<Rightarrow> Categories \<Rightarrow> error + string list" where
  "get_active_labels ds c =
     (if not_data ds then Inl EmptyDatasetError
      else Inr (map fst (filter (\<lambda>kv. snd kv = True) (labels ds c))))"

text \<open>
  \<^verbatim>\<open>toggle_active_label\<close> mutates the object and returns \<^verbatim>\<open>None\<close>: the result is
  the value returned (or the exception) and the object afterwards.
\<close>

definition toggle_active_label ::
  "Categories \<Rightarrow> string \<Rightarrow> DataSet \<Rightarrow> (error + py_value) \<times> DataSet" where
  "toggle_active_label c descriptor ds =
     (if not_data ds then (Inl EmptyDatasetError, ds)
      else case map_of (labels ds c) descriptor of
             None \<Rightarrow> (Inl KeyError, ds)
           | Some v \<Rightarrow>
               (Inr PyNone,
                ds\<lparr>labels := (labels ds)(c := AList.update descriptor (\<not> v) (labels ds c))\<rparr>))"

subsection \<open>Statistics\<close>

text \<open>
  Python's \<^verbatim>\<open>min\<close> and \<^verbatim>\<open>max\<close> keep the first element and replace it by a later
  one that is strictly smaller (larger); \<^verbatim>\<open>sum\<close> adds from the left, starting at 0.
  Both \<^verbatim>\<open>min\<close> and \<^verbatim>\<open>max\<close> raise ValueError on an empty list.
\<close>

fun py_min :: "real list \<Rightarrow> error + real" where
  "py_min [] = Inl ValueError"
| "py_min (x # xs) = Inr (foldl (\<lambda>m y. if y < m then y else m) x xs)"

fun py_max :: "real list \<Rightarrow> error + real" where
  "py_max [] = Inl ValueError"
| "py_max (x # xs) = Inr (foldl (\<lambda>m y. if y > m then y else m) x xs)"

definition py_sum :: "real list \<Rightarrow> real" where
  "py_sum xs = foldl (+) 0 xs"

text \<open>The tail of both statistics functions, from the test of the list on.\<close>

definition summarize :: "real list \<Rightarrow> error + real \<times> real \<times> real" where
  "summarize concentration_list =
     (if concentration_list = [] then Inl NoMatchingItems
      else
        let average = py_sum concentration_list / real (length concentration_list)
        in case py_min concentration_list of
             Inl e \<Rightarrow> Inl e
           | Inr lo \<Rightarrow>
               (case py_max concentration_list of
                  Inl e \<Rightarrow> Inl e
                | Inr hi \<Rightarrow> Inr (lo, average, hi)))"

definition cross_table_statistics ::
  "DataSet \<Rightarrow> string \<Rightarrow> string \<Rightarrow> error + real \<times> real \<times> real" where
  "cross_table_statistics ds descriptor_one descriptor_two =
     (if not_data ds then Inl EmptyDatasetError
      else summarize
             (map concentration
                (filter (\<lambda>i. field ZIP_CODE i = descriptor_one \<and>
                              field TIME_OF_DAY i = descriptor_two) (the_data ds))))"

definition alternate :: "Categories \<Rightarrow> Categories" where
  "alternate row_category =
     (if row_category = ZIP_CODE then TIME_OF_DAY else ZIP_CODE)"

definition table_statistics ::
  "DataSet \<Rightarrow> Categories \<Rightarrow> string \<Rightarrow> error + real \<times> real \<times> real" where
  "table_statistics ds row_category label =
     (case get_active_labels ds (alternate row_category) of
        Inl e \<Rightarrow> Inl e
      | Inr active_labels \<Rightarrow>
          if not_data ds then Inl EmptyDatasetError
          else summarize
                 (map concentration
                    (filter (\<lambda>i. field row_category i = label \<and>
                                  field (alternate row_category) i \<in> set active_labels)
                       (the_data ds))))"

subsection \<open>Loading the file\<close>

text \<open>
  What \<^verbatim>\<open>csv.reader\<close> yields, item by item: a row of fields, or a failure of the
  reader at that row. The file itself is \<open>None\<close> when it cannot be opened.
  \<^verbatim>\<open>float\<close> is Python's; it is a parameter, \<open>None\<close> where it raises ValueError.
\<close>

datatype csv_item = Row "string list" | Unreadable

definition row_get :: "string list \<Rightarrow> nat \<Rightarrow> error + string" where
  "row_get row n = (if n < length row then Inr (row ! n) else Inl IndexError)"

text \<open>\<^verbatim>\<open>(row[1], row[4], float(row[5]))\<close>, evaluated from the left.\<close>

definition parse_row :: "(string \<Rightarrow> real option) \<Rightarrow> string list \<Rightarrow> error + item" where
  "parse_row to_float row =
     (case row_get row 1 of
        Inl e \<Rightarrow> Inl e
      | Inr z \<Rightarrow>
          (case row_get row 4 of
             Inl e \<Rightarrow> Inl e
           | Inr t \<Rightarrow>
               (case row_get row 5 of
                  Inl e \<Rightarrow> Inl e
                | Inr s \<Rightarrow>
                    (case to_float s of
                       None \<Rightarrow> Inl ValueError
                     | Some x \<Rightarrow> Inr (z, t, x)))))"

fun parse_rows :: "(string \<Rightarrow> real option) \<Rightarrow> csv_item list \<Rightarrow> error + item list" where
  "parse_rows to_float [] = Inr []"
| "parse_rows to_float (Unreadable # rest) = Inl CsvError"
| "parse_rows to_float (Row row # rest) =
     (case parse_row to_float row of
        Inl e \<Rightarrow> Inl e
      | Inr i \<Rightarrow>
          (case parse_rows to_float rest of
             Inl e \<Rightarrow> Inl e
           | Inr is \<Rightarrow> Inr (i # is)))"

text \<open>\<^verbatim>\<open>str\<close> of a non-negative integer: its decimal digits.\<close>

fun str_nat :: "nat \<Rightarrow> string" where
  "str_nat n =
     (if n < 10 then [char_of (48 + n)]
      else str_nat (n div 10) @ [char_of (48 + n mod 10)])"

declare str_nat.simps [simp del]

definition newline :: char where
  "newline = CHR 0x0A"

text \<open>
  \<^verbatim>\<open>load_file\<close>: the value returned (or the exception), the text printed, and the
  object afterwards. The list comprehension is assigned to \<^verbatim>\<open>self._data\<close> only when
  every row has been parsed; \<^verbatim>\<open>_initialize_labels\<close> runs after the assignment.
\<close>

definition load_file ::
  "(string \<Rightarrow> real option) \<Rightarrow> csv_item list option \<Rightarrow> DataSet
     \<Rightarrow> (error + py_value) \<times> string \<times> DataSet" where
  "load_file to_float air_file ds =
     (case air_file of
        None \<Rightarrow> (Inl OSError, [], ds)
      | Some [] \<Rightarrow> (Inl StopIteration, [], ds)
      | Some (Unreadable # rest) \<Rightarrow> (Inl CsvError, [], ds)
      | Some (Row hdr # rest) \<Rightarrow>
          (case parse_rows to_float rest of
             Inl e \<Rightarrow> (Inl e, [], ds)
           | Inr rows \<Rightarrow>
               (let ds1 = ds\<lparr>data := Some rows\<rparr>;
                    count = length rows
                in case initialize_labels ds1 of
                     Inl e \<Rightarrow> (Inl e, [], ds1)
                   | Inr ds2 \<Rightarrow>
                       (Inr PyNone, str_nat count @ '' lines loaded'' @ [newline], ds2))))"

subsection \<open>Rendering the tables\<close>

text \<open>
  The display functions return \<^verbatim>\<open>None\<close> and change nothing: their result is the
  text printed, or the exception raised. \<open>fmt\<close> is Python's rendering of a float with two
  decimals (\<^verbatim>\<open>.2f\<close>), a parameter; padding to the field width is modelled.
\<close>

definition ljust :: "nat \<Rightarrow> string \<Rightarrow> string" where
  "ljust n s = s @ replicate (n - length s) CHR '' ''"

definition rjust :: "nat \<Rightarrow> string \<Rightarrow> string" where
  "rjust n s = replicate (n - length s) CHR '' '' @ s"

text \<open>\<^verbatim>\<open>statistics[stat.value]\<close>\<close>

fun pick :: "Stats \<Rightarrow> real \<times> real \<times> real \<Rightarrow> real" where
  "pick Stats_MIN (lo, avg, hi) = lo"
| "pick Stats_AVG (lo, avg, hi) = avg"
| "pick Stats_MAX (lo, avg, hi) = hi"

text \<open>The inner loop of \<^verbatim>\<open>display_cross_table\<close>: the cells of row \<open>j\<close>.\<close>

fun cross_cells ::
  "(real \<Rightarrow> string) \<Rightarrow> Stats \<Rightarrow> DataSet \<Rightarrow> string \<Rightarrow> string list \<Rightarrow> error + string" where
  "cross_cells fmt stat ds j [] = Inr []"
| "cross_cells fmt stat ds j (k # ks) =
     (case (case cross_table_statistics ds j k of
              Inr statistics \<Rightarrow> Inr (rjust 8 (fmt (pick stat statistics)))
            | Inl NoMatchingItems \<Rightarrow> Inr (rjust 8 ''N/A'')
            | Inl e \<Rightarrow> Inl e) of
        Inl e \<Rightarrow> Inl e
      | Inr cell \<Rightarrow>
          (case cross_cells fmt stat ds j ks of
             Inl e \<Rightarrow> Inl e
           | Inr cells \<Rightarrow> Inr (cell @ cells)))"

text \<open>The outer loop: one line for each active zip code.\<close>

fun cross_rows ::
  "(real \<Rightarrow> string) \<Rightarrow> Stats \<Rightarrow> DataSet \<Rightarrow> string list \<Rightarrow> error + string" where
  "cross_rows fmt stat ds [] = Inr []"
| "cross_rows fmt stat ds (j # js) =
     (case get_active_labels ds TIME_OF_DAY of
        Inl e \<Rightarrow> Inl e
      | Inr ks \<Rightarrow>
          (case cross_cells fmt stat ds j ks of
             Inl e \<Rightarrow> Inl e
           | Inr cells \<Rightarrow>
               (case cross_rows fmt stat ds js of
                  Inl e \<Rightarrow> Inl e
                | Inr rest \<Rightarrow> Inr (ljust 7 j @ cells @ [newline] @ rest))))"

definition display_cross_table ::
  "(real \<Rightarrow> string) \<Rightarrow> Stats \<Rightarrow> DataSet \<Rightarrow> error + string" where
  "display_cross_table fmt stat ds =
     (if not_data ds then Inl EmptyDatasetError
      else case get_active_labels ds TIME_OF_DAY of
             Inl e \<Rightarrow> Inl e
           | Inr ts \<Rightarrow>
               (case get_active_labels ds ZIP_CODE of
                  Inl e \<Rightarrow> Inl e
                | Inr zs \<Rightarrow>
                    (case cross_rows fmt stat ds zs of
                       Inl e \<Rightarrow> Inl e
                     | Inr body \<Rightarrow>
                         Inr ([newline] @ ljust 7 [] @ concat (map (rjust 8) ts)
                              @ [newline] @ body))))"

fun stat_cells :: "(real \<Rightarrow> string) \<Rightarrow> real \<times> real \<times> real \<Rightarrow> string" where
  "stat_cells fmt (lo, avg, hi) = rjust 8 (fmt lo) @ rjust 8 (fmt avg) @ rjust 8 (fmt hi)"

text \<open>The last loop of \<^verbatim>\<open>display_field_table\<close>: one line for each active label.\<close>

fun field_rows ::
  "(real \<Rightarrow> string) \<Rightarrow> DataSet \<Rightarrow> Categories \<Rightarrow> string list \<Rightarrow> error + string" where
  "field_rows fmt ds rows [] = Inr []"
| "field_rows fmt ds rows (i # is) =
     (case (case table_statistics ds rows i of
              Inr statistics \<Rightarrow> Inr (stat_cells fmt statistics)
            | Inl NoMatchingItems \<Rightarrow> Inr (rjust 8 ''N/A'' @ rjust 8 ''N/A'' @ rjust 8 ''N/A'')
            | Inl e \<Rightarrow> Inl e) of
        Inl e \<Rightarrow> Inl e
      | Inr cells \<Rightarrow>
          (case field_rows fmt ds rows is of
             Inl e \<Rightarrow> Inl e
           | Inr rest \<Rightarrow> Inr (ljust 7 i @ cells @ [newline] @ rest)))"

definition display_field_table ::
  "(real \<Rightarrow> string) \<Rightarrow> Categories \<Rightarrow> DataSet \<Rightarrow> error + string" where
  "display_field_table fmt rows ds =
     (if not_data ds then Inl EmptyDatasetError
      else case get_active_labels ds (alternate rows) of
             Inl e \<Rightarrow> Inl e
           | Inr others \<Rightarrow>
               (case get_active_labels ds rows of
                  Inl e \<Rightarrow> Inl e
                | Inr items \<Rightarrow>
                    (case field_rows fmt ds rows items of
                       Inl e \<Rightarrow> Inl e
                     | Inr body \<Rightarrow>
                         Inr ([newline]
                              @ ''The following data are from sensors matching these criteria:''
                              @ [newline] @ [newline]
                              @ concat (map (\<lambda>label. ''- '' @ label @ [newline]) others)
                              @ ljust 8 [] @ ljust 8 ''Minimum'' @ ljust 8 ''Average''
                              @ ljust 8 ''Maximum'' @ [newline]
                              @ body))))"

subsection \<open>Reference definitions\<close>

text \<open>
  The statistics as the specification words them: the least element, the arithmetic mean
  and the greatest element of the matched concentrations, and NoMatchingItems when nothing
  matches. The source computes them with \<open>py_min\<close>, \<open>py_sum\<close> and \<open>py_max\<close>.
\<close>

definition spec_min_avg_max :: "real list \<Rightarrow> error + real \<times> real \<times> real" where
  "spec_min_avg_max cs =
     (if cs = [] then Inl NoMatchingItems
      else Inr (Min (set cs), sum_list cs / real (length cs), Max (set cs)))"

text \<open>The three data rows of the specification's example.\<close>

definition example_rows :: "item list" where
  "example_rows =
     [(''10001'', ''Morning'', 5), (''10001'', ''Morning'', 7), (''10002'', ''Evening'', 3)]"

text \<open>The object that \<^verbatim>\<open>DataSet()\<close> constructs: no data, empty registries, empty header.\<close>

definition empty_dataset :: DataSet where
  "empty_dataset = \<lparr>labels = (\<lambda>c. []), data = None, header = []\<rparr>"

text \<open>\<^verbatim>\<open>isinstance(v, str)\<close>\<close>

definition is_str :: "py_value \<Rightarrow> bool" where
  "is_str v = (case v of PyStr s \<Rightarrow> True | _ \<Rightarrow> False)"

text \<open>The object after loading the three example rows under the header of the example.\<close>

definition example_dataset :: DataSet where
  "example_dataset =
     \<lparr>labels = (\<lambda>c. case c of
                   ZIP_CODE \<Rightarrow> [(''10001'', True), (''10002'', True)]
                 | TIME_OF_DAY \<Rightarrow> [(''Morning'', True), (''Evening'', True)]),
      data = Some example_rows,
      header = ''Air Quality Report''\<rparr>"

text \<open>
  A row that cannot be read, or whose field 5 is absent or not numeric, in the words of
  the specification.
\<close>

definition bad_item :: "(string \<Rightarrow> real option) \<Rightarrow> csv_item \<Rightarrow> bool" where
  "bad_item to_float it =
     (case it of
        Unreadable \<Rightarrow> True
      | Row row \<Rightarrow> length row \<le> 5 \<or> to_float (row ! 5) = None)"

text \<open>The exceptions a failed parse raises: of a short row, of \<^verbatim>\<open>float\<close>, of the reader.\<close>

definition parse_error :: "error \<Rightarrow> bool" where
  "parse_error e = (e = IndexError \<or> e = ValueError \<or> e = CsvError)"

text \<open>\<^verbatim>\<open>float\<close> on the three literals of the example; every other string is rejected.\<close>

definition example_float :: "string \<Rightarrow> real option" where
  "example_float s =
     (if s = ''5.0'' then Some 5 else if s = ''7.0'' then Some 7
      else if s = ''3.0'' then Some 3 else None)"

text \<open>A file of the header row and the three example rows.\<close>

definition example_file :: "csv_item list" where
  "example_file =
     [Row [''sensor'', ''zip'', ''lat'', ''lon'', ''time'', ''pm''],
      Row [''a'', ''10001'', ''0'', ''0'', ''Morning'', ''5.0''],
      Row [''b'', ''10001'', ''0'', ''0'', ''Morning'', ''7.0''],
      Row [''c'', ''10002'', ''0'', ''0'', ''Evening'', ''3.0'']]"

text \<open>
  One cell of the cross table, in the words of the specification: the placeholder when no
  record matches the pair, the requested statistic of the matching records otherwise.
\<close>

definition cell_text ::
  "(real \<Rightarrow> string) \<Rightarrow> Stats \<Rightarrow> item list \<Rightarrow> string \<Rightarrow> string \<Rightarrow> string" where
  "cell_text fmt stat recs z t =
     (let cs = map concentration
                 [i \<leftarrow> recs. field ZIP_CODE i = z \<and> field TIME_OF_DAY i = t]
      in if cs = [] then ''     N/A''
         else rjust 8 (fmt (pick stat (Min (set cs), sum_list cs / real (length cs),
                                         Max (set cs)))))"

text \<open>Two-decimal rendering of the numbers that occur in the example.\<close>

definition example_fmt :: "real \<Rightarrow> string" where
  "example_fmt x =
     (if x = 3 then ''3.00'' else if x = 5 then ''5.00'' else if x = 6 then ''6.00''
      else if x = 7 then ''7.00'' else ''?'')"

section \<open>Properties\<close>

subsection \<open>Python's built-ins and the mathematical operations\<close>

lemma foldl_min_fold:
  "foldl (\<lambda>m y. if y < m then y else m) (x::real) xs = fold min xs x"
proof (induction xs arbitrary: x)
  case Nil
  show ?case by simp
next
  case (Cons a xs)
  have "(if a < x then a else x) = min a x" by (simp add: min_def)
  with Cons.IH show ?case by simp
qed

lemma foldl_min_Min:
  "foldl (\<lambda>m y. if y < m then y else m) (x::real) xs = Min (set (x # xs))"
  by (simp only: foldl_min_fold Min.set_eq_fold)

lemma foldl_max_fold:
  "foldl (\<lambda>m y. if y > m then y else m) (x::real) xs = fold max xs x"
proof (induction xs arbitrary: x)
  case Nil
  show ?case by simp
next
  case (Cons a xs)
  have "(if a > x then a else x) = max a x" by (simp add: max_def)
  with Cons.IH show ?case by simp
qed

lemma foldl_max_Max:
  "foldl (\<lambda>m y. if y > m then y else m) (x::real) xs = Max (set (x # xs))"
  by (simp only: foldl_max_fold Max.set_eq_fold)

lemma py_min_Min: "xs \<noteq> [] \<Longrightarrow> py_min xs = Inr (Min (set xs))"
  by (cases xs) (simp_all only: py_min.simps foldl_min_Min, simp)

lemma py_max_Max: "xs \<noteq> [] \<Longrightarrow> py_max xs = Inr (Max (set xs))"
  by (cases xs) (simp_all only: py_max.simps foldl_max_Max, simp)

lemma foldl_plus_sum_list: "foldl (+) (a::real) xs = a + sum_list xs"
  by (induction xs arbitrary: a) simp_all

lemma py_sum_sum_list: "py_sum xs = sum_list xs"
  by (simp add: py_sum_def foldl_plus_sum_list)

lemma summarize_nonempty:
  "xs \<noteq> [] \<Longrightarrow>
   summarize xs = Inr (Min (set xs), sum_list xs / real (length xs), Max (set xs))"
  by (simp add: summarize_def py_min_Min py_max_Max py_sum_sum_list)

lemma summarize_empty: "summarize [] = Inl NoMatchingItems"
  by (simp add: summarize_def)

subsection \<open>The registries built by a load\<close>

lemma foldl_update_keys:
  "fst ` set (foldl (\<lambda>d i. AList.update (f i) True d) d0 xs) = fst ` set d0 \<union> f ` set xs"
  by (induction xs arbitrary: d0) (auto simp: AList.dom_update)

lemma foldl_update_distinct:
  "distinct (map fst d0) \<Longrightarrow>
   distinct (map fst (foldl (\<lambda>d i. AList.update (f i) True d) d0 xs))"
  by (induction xs arbitrary: d0) (simp_all add: AList.distinct_update)

lemma update_True_all:
  "\<forall>kv \<in> set d. snd kv \<Longrightarrow> \<forall>kv \<in> set (AList.update k True d). snd kv"
  by (induction d) auto

lemma foldl_update_all_True:
  "\<forall>kv \<in> set d0. snd kv \<Longrightarrow>
   \<forall>kv \<in> set (foldl (\<lambda>d i. AList.update (f i) True d) d0 xs). snd kv"
proof (induction xs arbitrary: d0)
  case Nil
  then show ?case by simp
next
  case (Cons x xs)
  from Cons.prems have "\<forall>kv \<in> set (AList.update (f x) True d0). snd kv"
    by (rule update_True_all)
  from Cons.IH [OF this] show ?case by simp
qed

lemma dict_comp_keys: "fst ` set (dict_comp c recs) = field c ` set recs"
  by (simp add: dict_comp_def foldl_update_keys)

lemma dict_comp_distinct: "distinct (map fst (dict_comp c recs))"
  by (simp add: dict_comp_def foldl_update_distinct)

lemma dict_comp_all_True: "\<forall>kv \<in> set (dict_comp c recs). snd kv"
  unfolding dict_comp_def by (rule foldl_update_all_True) simp

lemma filter_all_True: "\<forall>kv \<in> set d. snd kv \<Longrightarrow> filter (\<lambda>kv. snd kv = True) d = d"
  by (induction d) auto

lemma initialize_labels_loaded:
  "data ds = Some recs \<Longrightarrow> recs \<noteq> [] \<Longrightarrow>
   initialize_labels ds = Inr (ds\<lparr>labels := (\<lambda>c. dict_comp c recs)\<rparr>)"
proof -
  assume d: "data ds = Some recs" and n: "recs \<noteq> []"
  have "(labels ds)(ZIP_CODE := dict_comp ZIP_CODE recs, TIME_OF_DAY := dict_comp TIME_OF_DAY recs)
        = (\<lambda>c. dict_comp c recs)"
  proof
    fix c show "((labels ds)(ZIP_CODE := dict_comp ZIP_CODE recs,
                   TIME_OF_DAY := dict_comp TIME_OF_DAY recs)) c = dict_comp c recs"
      by (cases c) simp_all
  qed
  with d n show ?thesis
    by (simp add: initialize_labels_def not_data_def the_data_def)
qed

lemma load_file_parsed:
  "parse_rows to_float rest = Inr recs \<Longrightarrow> recs \<noteq> [] \<Longrightarrow>
   load_file to_float (Some (Row hdr # rest)) ds =
     (Inr PyNone, str_nat (length recs) @ '' lines loaded'' @ [newline],
      ds\<lparr>data := Some recs, labels := (\<lambda>c. dict_comp c recs)\<rparr>)"
proof -
  assume p: "parse_rows to_float rest = Inr recs" and n: "recs \<noteq> []"
  have "initialize_labels (ds\<lparr>data := Some recs\<rparr>) =
        Inr (ds\<lparr>data := Some recs, labels := (\<lambda>c. dict_comp c recs)\<rparr>)"
    using n by (simp add: initialize_labels_loaded)
  with p show ?thesis
    by (simp add: load_file_def Let_def)
qed

lemma load_file_parsed_empty:
  "parse_rows to_float rest = Inr [] \<Longrightarrow>
   load_file to_float (Some (Row hdr # rest)) ds =
     (Inl EmptyDatasetError, [], ds\<lparr>data := Some []\<rparr>)"
  by (simp add: load_file_def Let_def initialize_labels_def not_data_def)

lemma load_file_parse_error:
  "parse_rows to_float rest = Inl e \<Longrightarrow>
   load_file to_float (Some (Row hdr # rest)) ds = (Inl e, [], ds)"
  by (simp add: load_file_def)

lemma load_file_success_cases:
  assumes "load_file to_float air_file ds = (Inr v, out, ds')"
  obtains hdr rest recs where "air_file = Some (Row hdr # rest)"
    and "parse_rows to_float rest = Inr recs" and "recs \<noteq> []"
proof -
  from assms obtain items where f: "air_file = Some items"
    by (cases air_file) (auto simp: load_file_def)
  with assms obtain it rest where i: "items = it # rest"
    by (cases items) (auto simp: load_file_def)
  with assms f obtain hdr where h: "it = Row hdr"
    by (cases it) (auto simp: load_file_def)
  from assms f i h obtain recs where p: "parse_rows to_float rest = Inr recs"
    by (cases "parse_rows to_float rest") (auto simp: load_file_def)
  have "recs \<noteq> []"
  proof
    assume "recs = []"
    with p have "load_file to_float (Some (Row hdr # rest)) ds =
        (Inl EmptyDatasetError, [], ds\<lparr>data := Some []\<rparr>)"
      by (simp add: load_file_parsed_empty)
    with assms f i h show False by simp
  qed
  with f i h p that show thesis by blast
qed

lemma summarize_spec: "summarize cs = spec_min_avg_max cs"
  by (cases "cs = []") (simp_all add: spec_min_avg_max_def summarize_empty summarize_nonempty)

lemma cross_table_statistics_loaded:
  "data ds = Some recs \<Longrightarrow> recs \<noteq> [] \<Longrightarrow>
   cross_table_statistics ds z t =
     spec_min_avg_max (map concentration
        [i \<leftarrow> recs. field ZIP_CODE i = z \<and> field TIME_OF_DAY i = t])"
  by (simp add: cross_table_statistics_def not_data_def the_data_def summarize_spec)

subsection \<open>Cross-table statistics\<close>

text \<open>
  C1. On a loaded dataset, \<open>cross_table_statistics\<close> depends on the records whose zip
  code and time of day equal the two labels and on nothing else: replacing the label
  registries (and with them every active flag) leaves the result unchanged. When the
  selection is not empty the result is the triple of its minimum, its sum divided by its
  count, and its maximum. On the three example rows the pair 10001, Morning
  gives (5, 6, 7).
\<close>

theorem cross_table_statistics_selection:
  "(data ds = Some recs \<and> recs \<noteq> [] \<longrightarrow>
      cross_table_statistics (ds\<lparr>labels := L\<rparr>) z t = cross_table_statistics ds z t \<and>
      (let cs = map concentration
                  [i \<leftarrow> recs. field ZIP_CODE i = z \<and> field TIME_OF_DAY i = t]
       in cs \<noteq> [] \<longrightarrow>
          cross_table_statistics ds z t =
            Inr (Min (set cs), sum_list cs / real (length cs), Max (set cs))))
   \<and> cross_table_statistics \<lparr>labels = L, data = Some example_rows, header = h\<rparr>
         ''10001'' ''Morning'' = Inr (5, 6, 7)"
proof (intro conjI impI)
  assume a: "data ds = Some recs \<and> recs \<noteq> []"
  then have b: "data (ds\<lparr>labels := L\<rparr>) = Some recs" by simp
  from a have n: "recs \<noteq> []" and d: "data ds = Some recs" by simp_all
  show "cross_table_statistics (ds\<lparr>labels := L\<rparr>) z t = cross_table_statistics ds z t"
    by (simp only: cross_table_statistics_loaded [OF b n] cross_table_statistics_loaded [OF d n])
  from a show "let cs = map concentration
                  [i \<leftarrow> recs. field ZIP_CODE i = z \<and> field TIME_OF_DAY i = t]
       in cs \<noteq> [] \<longrightarrow>
          cross_table_statistics ds z t =
            Inr (Min (set cs), sum_list cs / real (length cs), Max (set cs))"
    by (simp add: cross_table_statistics_loaded spec_min_avg_max_def Let_def)
next
  have "cross_table_statistics \<lparr>labels = L, data = Some example_rows, header = h\<rparr>
         ''10001'' ''Morning'' = spec_min_avg_max [5, 7]"
    by (subst cross_table_statistics_loaded [where recs = example_rows])
       (simp_all add: example_rows_def concentration_def)
  then show "cross_table_statistics \<lparr>labels = L, data = Some example_rows, header = h\<rparr>
         ''10001'' ''Morning'' = Inr (5, 6, 7)"
    by (simp add: spec_min_avg_max_def)
qed

theorem cross_table_statistics_selection_witness:
  "data \<lparr>labels = (\<lambda>c. []), data = Some example_rows, header = []\<rparr> = Some example_rows
   \<and> example_rows \<noteq> []
   \<and> cross_table_statistics
        \<lparr>labels = (\<lambda>c. [(''10001'', False)]), data = Some example_rows, header = []\<rparr>
        ''10002'' ''Evening'' = Inr (3, 3, 3)"
  using cross_table_statistics_selection
    [of "\<lparr>labels = (\<lambda>c. []), data = Some example_rows, header = []\<rparr>" example_rows
        "\<lambda>c. [(''10001'', False)]" "''10002''" "''Evening''"]
  by (simp add: example_rows_def concentration_def)

lemma not_data_iff: "not_data ds \<longleftrightarrow> data ds = None \<or> data ds = Some []"
  by (simp add: not_data_def split: option.splits)

lemma not_data_raises:
  assumes "not_data ds"
  shows "get_labels ds c = Inl EmptyDatasetError"
    and "get_active_labels ds c = Inl EmptyDatasetError"
    and "toggle_active_label c d ds = (Inl EmptyDatasetError, ds)"
    and "cross_table_statistics ds z t = Inl EmptyDatasetError"
    and "table_statistics ds c l = Inl EmptyDatasetError"
    and "display_cross_table fmt stat ds = Inl EmptyDatasetError"
    and "display_field_table fmt c ds = Inl EmptyDatasetError"
  using assms
  by (simp_all add: get_labels_def get_active_labels_def toggle_active_label_def
      cross_table_statistics_def table_statistics_def display_cross_table_def
      display_field_table_def)

subsection \<open>Operations on an empty dataset\<close>

text \<open>
  C5. When no data has been loaded (\<^verbatim>\<open>_data\<close> is \<^verbatim>\<open>None\<close>, or the empty list),
  each of \<open>get_labels\<close>, \<open>get_active_labels\<close>, \<open>toggle_active_label\<close>,
  \<open>cross_table_statistics\<close>, \<open>table_statistics\<close>, \<open>display_cross_table\<close> and
  \<open>display_field_table\<close> raises EmptyDatasetError, whatever its arguments, and the
  object is unchanged.
\<close>

theorem empty_dataset_raises:
  "data ds = None \<or> data ds = Some [] \<Longrightarrow>
   get_labels ds c = Inl EmptyDatasetError \<and>
   get_active_labels ds c = Inl EmptyDatasetError \<and>
   toggle_active_label c d ds = (Inl EmptyDatasetError, ds) \<and>
   cross_table_statistics ds z t = Inl EmptyDatasetError \<and>
   table_statistics ds c l = Inl EmptyDatasetError \<and>
   display_cross_table fmt stat ds = Inl EmptyDatasetError \<and>
   display_field_table fmt c ds = Inl EmptyDatasetError"
proof -
  assume "data ds = None \<or> data ds = Some []"
  then have "not_data ds" by (simp add: not_data_iff)
  then show ?thesis by (simp only: not_data_raises simp_thms)
qed

theorem empty_dataset_raises_witness:
  "DataSet_init (PyStr []) = Inr empty_dataset \<and>
   data empty_dataset = None \<and>
   get_labels empty_dataset ZIP_CODE = Inl EmptyDatasetError \<and>
   get_active_labels empty_dataset ZIP_CODE = Inl EmptyDatasetError \<and>
   toggle_active_label ZIP_CODE ''10001'' empty_dataset = (Inl EmptyDatasetError, empty_dataset) \<and>
   cross_table_statistics empty_dataset ''10001'' ''Morning'' = Inl EmptyDatasetError \<and>
   table_statistics empty_dataset ZIP_CODE ''10001'' = Inl EmptyDatasetError \<and>
   display_cross_table (\<lambda>x. []) Stats_AVG empty_dataset = Inl EmptyDatasetError \<and>
   display_field_table (\<lambda>x. []) ZIP_CODE empty_dataset = Inl EmptyDatasetError"
proof -
  have i: "DataSet_init (PyStr []) = Inr empty_dataset"
    by (simp add: DataSet_init_def header_setter_def empty_dataset_def)
  have d: "data empty_dataset = None \<or> data empty_dataset = Some []"
    by (simp add: empty_dataset_def)
  have n: "data empty_dataset = None" by (simp add: empty_dataset_def)
  from i n empty_dataset_raises [OF d, of ZIP_CODE "''10001''" "''10001''" "''Morning''" "''10001''"
      "\<lambda>x. []" Stats_AVG]
  show ?thesis by simp
qed

subsection \<open>Loading a file with no data rows\<close>

text \<open>
  C10. A file holding only its header row makes \<open>load_file\<close> raise EmptyDatasetError
  after \<^verbatim>\<open>_data\<close> has been replaced by the empty list: nothing is printed, the
  registries and the header are those of before the call, and on the object left behind
  every query raises EmptyDatasetError.
\<close>

theorem load_file_header_only:
  "\<exists>ds'. load_file to_float (Some [Row hdr]) ds = (Inl EmptyDatasetError, [], ds') \<and>
     data ds' = Some [] \<and> labels ds' = labels ds \<and> header ds' = header ds \<and>
     get_labels ds' c = Inl EmptyDatasetError \<and>
     get_active_labels ds' c = Inl EmptyDatasetError \<and>
     toggle_active_label c d ds' = (Inl EmptyDatasetError, ds') \<and>
     cross_table_statistics ds' z t = Inl EmptyDatasetError \<and>
     table_statistics ds' c l = Inl EmptyDatasetError \<and>
     display_cross_table fmt stat ds' = Inl EmptyDatasetError \<and>
     display_field_table fmt c ds' = Inl EmptyDatasetError"
proof -
  let ?ds = "ds\<lparr>data := Some []\<rparr>"
  have l: "load_file to_float (Some [Row hdr]) ds = (Inl EmptyDatasetError, [], ?ds)"
    by (simp add: load_file_parsed_empty)
  have n: "not_data ?ds" by (simp add: not_data_def)
  have "load_file to_float (Some [Row hdr]) ds = (Inl EmptyDatasetError, [], ?ds) \<and>
     data ?ds = Some [] \<and> labels ?ds = labels ds \<and> header ?ds = header ds \<and>
     get_labels ?ds c = Inl EmptyDatasetError \<and>
     get_active_labels ?ds c = Inl EmptyDatasetError \<and>
     toggle_active_label c d ?ds = (Inl EmptyDatasetError, ?ds) \<and>
     cross_table_statistics ?ds z t = Inl EmptyDatasetError \<and>
     table_statistics ?ds c l = Inl EmptyDatasetError \<and>
     display_cross_table fmt stat ?ds = Inl EmptyDatasetError \<and>
     display_field_table fmt c ?ds = Inl EmptyDatasetError"
    using l by (simp add: not_data_raises [OF n])
  then show ?thesis by blast
qed

theorem load_file_header_only_witness:
  "load_file (\<lambda>s. None) (Some [Row [''h'']])
      (example_dataset\<lparr>labels := (labels example_dataset)(ZIP_CODE := [(''10001'', False), (''10002'', True)])\<rparr>) =
     (Inl EmptyDatasetError, [],
      example_dataset\<lparr>labels := (labels example_dataset)(ZIP_CODE := [(''10001'', False), (''10002'', True)]),
         data := Some []\<rparr>) \<and>
   get_active_labels
     (example_dataset\<lparr>labels := (labels example_dataset)(ZIP_CODE := [(''10001'', False), (''10002'', True)]),
         data := Some []\<rparr>) ZIP_CODE = Inl EmptyDatasetError"
proof -
  let ?ds = "example_dataset\<lparr>labels := (labels example_dataset)(ZIP_CODE := [(''10001'', False), (''10002'', True)])\<rparr>"
  from load_file_header_only [of "\<lambda>s. None" "[''h'']" ?ds ZIP_CODE]
  obtain ds' where l: "load_file (\<lambda>s. None) (Some [Row [''h'']]) ?ds = (Inl EmptyDatasetError, [], ds')"
    and d: "data ds' = Some []" and lb: "labels ds' = labels ?ds" and h: "header ds' = header ?ds"
    and g: "get_active_labels ds' ZIP_CODE = Inl EmptyDatasetError"
    by blast
  have "ds' = ?ds\<lparr>data := Some []\<rparr>"
    using d lb h by (cases ds') (simp add: example_dataset_def)
  with l g show ?thesis by simp
qed

subsection \<open>The header\<close>

text \<open>
  C9, as stated, calls \<^verbatim>\<open>Air Quality Report\<close> a header of 19 characters. The header
  is accepted, and it has 18 characters.
\<close>

theorem header_19_characters_counterexample:
  "\<not> (length ''Air Quality Report'' = 19 \<and>
      header_setter (PyStr ''Air Quality Report'') empty_dataset =
        Inr (empty_dataset\<lparr>header := ''Air Quality Report''\<rparr>))"
  by simp

text \<open>
  C9, amended. The setter stores unchanged every string of at most 30 characters, raises
  ValueError for every longer string and TypeError for every value that is not a string.
  The header \<^verbatim>\<open>Air Quality Report\<close>, of 18 characters, is accepted; every header
  of 31 characters is rejected.
\<close>

theorem header_setter_validation:
  "(length s \<le> 30 \<longrightarrow> header_setter (PyStr s) ds = Inr (ds\<lparr>header := s\<rparr>)) \<and>
   (length s > 30 \<longrightarrow> header_setter (PyStr s) ds = Inl ValueError) \<and>
   (\<not> is_str v \<longrightarrow> header_setter v ds = Inl TypeError) \<and>
   length ''Air Quality Report'' = 18 \<and>
   header_setter (PyStr ''Air Quality Report'') ds = Inr (ds\<lparr>header := ''Air Quality Report''\<rparr>) \<and>
   (length s = 31 \<longrightarrow> header_setter (PyStr s) ds = Inl ValueError)"
  by (cases v) (simp_all add: header_setter_def is_str_def)

theorem header_setter_validation_witness:
  "length (replicate 30 CHR ''x'') \<le> 30 \<and>
   header_setter (PyStr (replicate 30 CHR ''x'')) empty_dataset =
     Inr (empty_dataset\<lparr>header := replicate 30 CHR ''x''\<rparr>) \<and>
   length (replicate 31 CHR ''x'') > 30 \<and>
   header_setter (PyStr (replicate 31 CHR ''x'')) empty_dataset = Inl ValueError \<and>
   \<not> is_str (PyInt 7) \<and> header_setter (PyInt 7) empty_dataset = Inl TypeError \<and>
   header_setter (PyStr ''Air Quality Report'') empty_dataset =
     Inr (empty_dataset\<lparr>header := ''Air Quality Report''\<rparr>)"
  using header_setter_validation [of "replicate 30 CHR ''x''" empty_dataset "PyInt 7"]
    header_setter_validation [of "replicate 31 CHR ''x''" empty_dataset "PyInt 7"]
  by (simp add: is_str_def)

subsection \<open>Toggling a label\<close>

lemma update_keys_present:
  "map_of d k = Some v \<Longrightarrow> map fst (AList.update k w d) = map fst d"
  by (induction d) (auto split: if_splits)

text \<open>
  C8. On a loaded dataset whose registry for the category has the keys \<open>keys\<close>: a
  label that is not a key raises KeyError and changes nothing; a label that is a key
  returns \<^verbatim>\<open>None\<close>, negates the flag of that label, and leaves every other flag, the
  keys and their order, the other registry, the data and the header as they were; a second
  call gives back the object of before the first.
\<close>

theorem toggle_active_label_involution:
  "get_labels ds c = Inr keys \<Longrightarrow>
   (d \<notin> set keys \<longrightarrow> toggle_active_label c d ds = (Inl KeyError, ds)) \<and>
   (d \<in> set keys \<longrightarrow>
      (\<exists>ds1. toggle_active_label c d ds = (Inr PyNone, ds1) \<and>
         map_of (labels ds1 c) d = map_option Not (map_of (labels ds c) d) \<and>
         (\<forall>k. k \<noteq> d \<longrightarrow> map_of (labels ds1 c) k = map_of (labels ds c) k) \<and>
         get_labels ds1 c = Inr keys \<and>
         labels ds1 (alternate c) = labels ds (alternate c) \<and>
         data ds1 = data ds \<and> header ds1 = header ds \<and>
         toggle_active_label c d ds1 = (Inr PyNone, ds)))"
proof (intro conjI impI)
  assume g: "get_labels ds c = Inr keys"
  then have nd: "\<not> not_data ds" and k: "keys = map fst (labels ds c)"
    by (auto simp: get_labels_def split: if_splits)
  {
    assume "d \<notin> set keys"
    with k have "map_of (labels ds c) d = None"
      by (simp add: map_of_eq_None_iff)
    with nd show "toggle_active_label c d ds = (Inl KeyError, ds)"
      by (simp add: toggle_active_label_def)
  }
  {
    assume "d \<in> set keys"
    with k obtain v where v: "map_of (labels ds c) d = Some v"
      by (cases "map_of (labels ds c) d") (auto simp: map_of_eq_None_iff)
    let ?t = "ds\<lparr>labels := (labels ds)(c := AList.update d (\<not> v) (labels ds c))\<rparr>"
    have t1: "toggle_active_label c d ds = (Inr PyNone, ?t)"
      using nd v by (simp add: toggle_active_label_def)
    have nd1: "\<not> not_data ?t" using nd by (simp add: not_data_def)
    have l1: "labels ?t c = AList.update d (\<not> v) (labels ds c)" by simp
    have m1: "map_of (labels ?t c) d = Some (\<not> v)"
      by (simp add: AList.update_conv')
    have rb: "(labels ?t)(c := AList.update d (\<not> \<not> v) (labels ?t c)) = labels ds"
      using v by (simp add: AList.update_triv)
    have t2: "toggle_active_label c d ?t = (Inr PyNone, ds)"
      using nd1 m1 rb by (simp add: toggle_active_label_def)
    have o: "\<forall>k. k \<noteq> d \<longrightarrow> map_of (labels ?t c) k = map_of (labels ds c) k"
      by (simp add: AList.update_conv')
    have g1: "get_labels ?t c = Inr keys"
      using nd1 k v by (simp add: get_labels_def update_keys_present)
    have a: "labels ?t (alternate c) = labels ds (alternate c)"
      by (cases c) (simp_all add: alternate_def)
    have "toggle_active_label c d ds = (Inr PyNone, ?t) \<and>
         map_of (labels ?t c) d = map_option Not (map_of (labels ds c) d) \<and>
         (\<forall>k. k \<noteq> d \<longrightarrow> map_of (labels ?t c) k = map_of (labels ds c) k) \<and>
         get_labels ?t c = Inr keys \<and>
         labels ?t (alternate c) = labels ds (alternate c) \<and>
         data ?t = data ds \<and> header ?t = header ds \<and>
         toggle_active_label c d ?t = (Inr PyNone, ds)"
      using t1 m1 v o g1 a t2 by simp
    then show "\<exists>ds1. toggle_active_label c d ds = (Inr PyNone, ds1) \<and>
         map_of (labels ds1 c) d = map_option Not (map_of (labels ds c) d) \<and>
         (\<forall>k. k \<noteq> d \<longrightarrow> map_of (labels ds1 c) k = map_of (labels ds c) k) \<and>
         get_labels ds1 c = Inr keys \<and>
         labels ds1 (alternate c) = labels ds (alternate c) \<and>
         data ds1 = data ds \<and> header ds1 = header ds \<and>
         toggle_active_label c d ds1 = (Inr PyNone, ds)"
      by blast
  }
qed

lemma example_dataset_simps:
  "labels example_dataset ZIP_CODE = [(''10001'', True), (''10002'', True)]"
  "labels example_dataset TIME_OF_DAY = [(''Morning'', True), (''Evening'', True)]"
  "data example_dataset = Some example_rows"
  "header example_dataset = ''Air Quality Report''"
  "\<not> not_data example_dataset"
  by (simp_all add: example_dataset_def not_data_def example_rows_def)

theorem toggle_active_label_involution_witness:
  "get_labels example_dataset ZIP_CODE = Inr [''10001'', ''10002''] \<and>
   ''10002'' \<in> set [''10001'', ''10002''] \<and>
   ''10003'' \<notin> set [''10001'', ''10002''] \<and>
   toggle_active_label ZIP_CODE ''10003'' example_dataset = (Inl KeyError, example_dataset) \<and>
   fst (toggle_active_label ZIP_CODE ''10002'' example_dataset) = Inr PyNone \<and>
   map_of (labels (snd (toggle_active_label ZIP_CODE ''10002'' example_dataset)) ZIP_CODE)
     ''10002'' = Some False \<and>
   toggle_active_label ZIP_CODE ''10002''
     (snd (toggle_active_label ZIP_CODE ''10002'' example_dataset)) =
     (Inr PyNone, example_dataset)"
proof -
  have g: "get_labels example_dataset ZIP_CODE = Inr [''10001'', ''10002'']"
    by (simp add: get_labels_def example_dataset_simps)
  from toggle_active_label_involution [OF g, of "''10003''"]
  have a: "toggle_active_label ZIP_CODE ''10003'' example_dataset = (Inl KeyError, example_dataset)"
    by simp
  from toggle_active_label_involution [OF g, of "''10002''"]
  obtain ds1 where t: "toggle_active_label ZIP_CODE ''10002'' example_dataset = (Inr PyNone, ds1)"
    and m: "map_of (labels ds1 ZIP_CODE) ''10002'' =
              map_option Not (map_of (labels example_dataset ZIP_CODE) ''10002'')"
    and b: "toggle_active_label ZIP_CODE ''10002'' ds1 = (Inr PyNone, example_dataset)"
    by auto
  from m have "map_of (labels ds1 ZIP_CODE) ''10002'' = Some False"
    by (simp add: example_dataset_simps)
  with g a t b show ?thesis by simp
qed

subsection \<open>Loading\<close>

lemma parse_row_eq:
  "parse_row to_float row =
     (if length row \<le> 5 then Inl IndexError
      else case to_float (row ! 5) of
             None \<Rightarrow> Inl ValueError
           | Some x \<Rightarrow> Inr (row ! 1, row ! 4, x))"
  by (simp add: parse_row_def row_get_def split: option.splits)

lemma parse_rows_bad:
  "\<exists>it \<in> set rest. bad_item to_float it \<Longrightarrow>
   \<exists>e. parse_error e \<and> parse_rows to_float rest = Inl e"
proof (induction to_float rest rule: parse_rows.induct)
  case (1 to_float)
  then show ?case by simp
next
  case (2 to_float rest)
  show ?case by (simp add: parse_error_def)
next
  case (3 to_float row rest)
  show ?case
  proof (cases "parse_row to_float row")
    case (Inl e)
    then have "parse_error e"
      by (auto simp: parse_row_eq parse_error_def split: if_splits option.splits)
    with Inl show ?thesis by simp
  next
    case (Inr i)
    then have "\<not> bad_item to_float (Row row)"
      by (auto simp: parse_row_eq bad_item_def split: if_splits option.splits)
    with "3.prems" have "\<exists>it \<in> set rest. bad_item to_float it" by simp
    from "3.IH" [OF Inr this] obtain e
      where "parse_error e" and "parse_rows to_float rest = Inl e" by blast
    with Inr show ?thesis by simp
  qed
qed

text \<open>
  C3. When some row after the first cannot be read, or has no numeric field 5,
  \<open>load_file\<close> raises a parse error (IndexError, ValueError or the reader's error),
  prints nothing and leaves the object as it was: records, both registries and header.
\<close>

theorem load_file_parse_failure:
  "\<exists>it \<in> set rest. bad_item to_float it \<Longrightarrow>
   \<exists>e. parse_error e \<and> load_file to_float (Some (first # rest)) ds = (Inl e, [], ds)"
proof -
  assume "\<exists>it \<in> set rest. bad_item to_float it"
  then obtain e where e: "parse_error e" and p: "parse_rows to_float rest = Inl e"
    using parse_rows_bad by blast
  show ?thesis
  proof (cases first)
    case (Row hdr)
    with e p show ?thesis by (auto simp: load_file_parse_error)
  next
    case Unreadable
    then have "load_file to_float (Some (first # rest)) ds = (Inl CsvError, [], ds)"
      by (simp add: load_file_def)
    then show ?thesis by (auto simp: parse_error_def)
  qed
qed

lemma parse_rows_example: "parse_rows example_float (tl example_file) = Inr example_rows"
  by (simp add: example_file_def example_rows_def parse_row_eq example_float_def)

lemma dict_comp_example:
  "dict_comp ZIP_CODE example_rows = [(''10001'', True), (''10002'', True)]"
  "dict_comp TIME_OF_DAY example_rows = [(''Morning'', True), (''Evening'', True)]"
  by (simp_all add: dict_comp_def example_rows_def)

lemma load_file_example:
  "load_file example_float (Some example_file) ds =
     (Inr PyNone, ''3 lines loaded'' @ [newline],
      ds\<lparr>data := Some example_rows, labels := labels example_dataset\<rparr>)"
proof -
  have f: "example_file =
      Row [''sensor'', ''zip'', ''lat'', ''lon'', ''time'', ''pm''] # tl example_file"
    by (simp add: example_file_def)
  have n: "example_rows \<noteq> []" by (simp add: example_rows_def)
  have l: "length example_rows = 3" by (simp add: example_rows_def)
  have s: "str_nat 3 = ''3''" by code_simp
  have e: "(\<lambda>c. dict_comp c example_rows) = labels example_dataset"
  proof
    fix c show "dict_comp c example_rows = labels example_dataset c"
      by (cases c) (simp_all add: dict_comp_example example_dataset_simps)
  qed
  from load_file_parsed [OF parse_rows_example n,
      of "[''sensor'', ''zip'', ''lat'', ''lon'', ''time'', ''pm'']" ds] f l s e
  show ?thesis by simp
qed

lemma load_file_example_dataset:
  "load_file example_float (Some example_file) example_dataset =
     (Inr PyNone, ''3 lines loaded'' @ [newline], example_dataset)"
proof -
  have "example_dataset\<lparr>data := Some example_rows, labels := labels example_dataset\<rparr>
        = example_dataset"
    by (simp add: example_dataset_def)
  with load_file_example [of example_dataset] show ?thesis by simp
qed

theorem load_file_parse_failure_witness:
  "bad_item example_float (Row [''d'', ''10003'', ''0'', ''0'', ''Noon'', ''n/a'']) \<and>
   parse_error ValueError \<and>
   load_file example_float
     (Some (example_file @ [Row [''d'', ''10003'', ''0'', ''0'', ''Noon'', ''n/a'']]))
     example_dataset = (Inl ValueError, [], example_dataset)"
proof -
  let ?bad = "Row [''d'', ''10003'', ''0'', ''0'', ''Noon'', ''n/a'']"
  have b: "bad_item example_float ?bad"
    by (simp add: bad_item_def example_float_def)
  then have "\<exists>it \<in> set (tl example_file @ [?bad]). bad_item example_float it" by simp
  from load_file_parse_failure [OF this, of "hd example_file" example_dataset]
  obtain e where "load_file example_float (Some (hd example_file # tl example_file @ [?bad]))
      example_dataset = (Inl e, [], example_dataset)" by blast
  moreover have "hd example_file # tl example_file @ [?bad] = example_file @ [?bad]"
    by (simp add: example_file_def)
  moreover have "load_file example_float (Some (example_file @ [?bad])) example_dataset =
      (Inl ValueError, [], example_dataset)"
    by (simp add: load_file_def example_file_def parse_row_eq example_float_def)
  ultimately show ?thesis using b by (simp add: parse_error_def)
qed

text \<open>
  C4. After a successful load, the keys of each registry are exactly the values of that
  category's field in the loaded records, each once; every flag is true; the registries
  do not depend on the registries of before the load; and \<open>get_active_labels\<close> returns
  the list that \<open>get_labels\<close> returns.
\<close>

theorem load_file_rebuilds_labels:
  "load_file to_float air_file ds = (Inr v, out, ds') \<Longrightarrow>
   \<exists>recs. data ds' = Some recs \<and>
     load_file to_float air_file (ds\<lparr>labels := L\<rparr>) = (Inr v, out, ds') \<and>
     set (map fst (labels ds' c)) = field c ` set recs \<and>
     distinct (map fst (labels ds' c)) \<and>
     (\<forall>kv \<in> set (labels ds' c). snd kv = True) \<and>
     get_labels ds' c = Inr (map fst (labels ds' c)) \<and>
     get_active_labels ds' c = get_labels ds' c"
proof -
  assume a: "load_file to_float air_file ds = (Inr v, out, ds')"
  then obtain hdr rest recs where f: "air_file = Some (Row hdr # rest)"
    and p: "parse_rows to_float rest = Inr recs" and n: "recs \<noteq> []"
    by (rule load_file_success_cases)
  let ?t = "ds\<lparr>data := Some recs, labels := (\<lambda>c. dict_comp c recs)\<rparr>"
  from a f load_file_parsed [OF p n, of hdr ds]
  have v: "v = PyNone" and o: "out = str_nat (length recs) @ '' lines loaded'' @ [newline]"
    and d: "ds' = ?t" by simp_all
  have "load_file to_float air_file (ds\<lparr>labels := L\<rparr>) = (Inr v, out, ds')"
    using f v o d load_file_parsed [OF p n, of hdr "ds\<lparr>labels := L\<rparr>"] by simp
  moreover have "data ds' = Some recs" using d by simp
  moreover have l: "labels ds' c = dict_comp c recs" using d by simp
  moreover have "set (map fst (dict_comp c recs)) = field c ` set recs"
    using dict_comp_keys [of c recs] by simp
  moreover have t: "\<forall>kv \<in> set (dict_comp c recs). snd kv = True"
    using dict_comp_all_True [of c recs] by simp
  moreover have nd: "\<not> not_data ds'" using d n by (simp add: not_data_def)
  moreover have "filter (\<lambda>kv. snd kv = True) (dict_comp c recs) = dict_comp c recs"
    using dict_comp_all_True [of c recs] by (rule filter_all_True)
  ultimately show ?thesis
    by (simp add: get_labels_def get_active_labels_def dict_comp_distinct)
qed

theorem load_file_rebuilds_labels_witness:
  "load_file example_float (Some example_file)
      (example_dataset\<lparr>labels := (\<lambda>c. [(''90210'', False)])\<rparr>) =
     (Inr PyNone, ''3 lines loaded'' @ [newline], example_dataset) \<and>
   set (map fst (labels example_dataset ZIP_CODE)) = {''10001'', ''10002''} \<and>
   get_labels example_dataset ZIP_CODE = Inr [''10001'', ''10002''] \<and>
   get_active_labels example_dataset ZIP_CODE = Inr [''10001'', ''10002'']"
proof -
  note l = load_file_example_dataset
  from load_file_rebuilds_labels [OF l, of "\<lambda>c. [(''90210'', False)]" ZIP_CODE]
  have "load_file example_float (Some example_file)
      (example_dataset\<lparr>labels := (\<lambda>c. [(''90210'', False)])\<rparr>) =
     (Inr PyNone, ''3 lines loaded'' @ [newline], example_dataset)"
    and "get_active_labels example_dataset ZIP_CODE = get_labels example_dataset ZIP_CODE"
    by auto
  then show ?thesis
    by (auto simp: get_labels_def example_dataset_simps)
qed

text \<open>
  C7. A successful load replaces the records by the parsed rows and rebuilds both
  registries from them. It prints the number of records and returns \<^verbatim>\<open>None\<close>: the
  count is not returned, although the docstring of \<^verbatim>\<open>load_file\<close> says so.
\<close>

theorem load_file_success:
  "load_file to_float air_file ds = (Inr v, out, ds') \<Longrightarrow>
   \<exists>hdr rest recs. air_file = Some (Row hdr # rest) \<and>
     parse_rows to_float rest = Inr recs \<and>
     data ds' = Some recs \<and> labels ds' = (\<lambda>c. dict_comp c recs) \<and>
     header ds' = header ds \<and>
     out = str_nat (length recs) @ '' lines loaded'' @ [newline] \<and>
     v = PyNone \<and> v \<noteq> PyInt (int (length recs))"
proof -
  assume a: "load_file to_float air_file ds = (Inr v, out, ds')"
  then obtain hdr rest recs where f: "air_file = Some (Row hdr # rest)"
    and p: "parse_rows to_float rest = Inr recs" and n: "recs \<noteq> []"
    by (rule load_file_success_cases)
  from a f load_file_parsed [OF p n, of hdr ds]
  have "v = PyNone" and "out = str_nat (length recs) @ '' lines loaded'' @ [newline]"
    and "ds' = ds\<lparr>data := Some recs, labels := (\<lambda>c. dict_comp c recs)\<rparr>" by simp_all
  with f p show ?thesis by simp
qed

theorem load_file_success_witness:
  "load_file example_float (Some example_file) empty_dataset =
     (Inr PyNone, ''3 lines loaded'' @ [newline], example_dataset\<lparr>header := []\<rparr>) \<and>
   parse_rows example_float (tl example_file) = Inr example_rows \<and>
   length example_rows = 3 \<and>
   fst (load_file example_float (Some example_file) empty_dataset) \<noteq> Inr (PyInt 3)"
proof -
  have e: "empty_dataset\<lparr>data := Some example_rows, labels := labels example_dataset\<rparr>
           = example_dataset\<lparr>header := []\<rparr>"
    by (simp add: empty_dataset_def example_dataset_def)
  have l: "load_file example_float (Some example_file) empty_dataset =
     (Inr PyNone, ''3 lines loaded'' @ [newline], example_dataset\<lparr>header := []\<rparr>)"
    using load_file_example [of empty_dataset] by (simp only: e)
  from load_file_success [OF l] have "PyNone \<noteq> PyInt 3" by simp
  with l show ?thesis by (simp add: parse_rows_example example_rows_def)
qed

subsection \<open>Field-table statistics\<close>

lemma get_active_labels_loaded:
  "data ds = Some recs \<Longrightarrow> recs \<noteq> [] \<Longrightarrow>
   get_active_labels ds c = Inr (map fst (filter snd (labels ds c)))"
  by (simp add: get_active_labels_def not_data_def)

lemma table_statistics_loaded:
  "data ds = Some recs \<Longrightarrow> recs \<noteq> [] \<Longrightarrow>
   get_active_labels ds (alternate c) = Inr active \<Longrightarrow>
   table_statistics ds c l =
     spec_min_avg_max (map concentration
        [i \<leftarrow> recs. field c i = l \<and> field (alternate c) i \<in> set active])"
  by (simp add: table_statistics_def not_data_def the_data_def summarize_spec)

lemma active_after_update_False:
  "distinct (map fst d) \<Longrightarrow>
   map fst (filter snd (AList.update z False d)) =
     filter (\<lambda>k. k \<noteq> z) (map fst (filter snd d))"
proof (induction d)
  case Nil
  show ?case by simp
next
  case (Cons p d)
  show ?case
  proof (cases "fst p = z")
    case True
    with Cons.prems have "z \<notin> fst ` set d" by auto
    then have "filter (\<lambda>k. k \<noteq> z) (map fst (filter snd d)) = map fst (filter snd d)"
      by (force simp: filter_id_conv)
    with True show ?thesis by simp
  next
    case False
    with Cons show ?thesis by simp
  qed
qed

lemma active_is_True:
  "distinct (map fst d) \<Longrightarrow> z \<in> set (map fst (filter snd d)) \<Longrightarrow> map_of d z = Some True"
  by (induction d) (force split: if_splits)+

text \<open>
  C2. On a loaded dataset, with \<open>active\<close> the active labels of the opposite category,
  \<open>table_statistics\<close> computes min, mean and max over exactly the records whose field
  of the row category equals the label and whose opposite field is in \<open>active\<close>, and
  raises NoMatchingItems when there is no such record. Toggling an active label \<open>z\<close> of
  the opposite category (registry keys being distinct, as the keys of a dict are) removes
  \<open>z\<close> from the active labels, and the statistics are then those of the records above
  whose opposite field is not \<open>z\<close>.
\<close>

theorem table_statistics_selection:
  "data ds = Some recs \<Longrightarrow> recs \<noteq> [] \<Longrightarrow>
   get_active_labels ds (alternate c) = Inr active \<Longrightarrow>
   table_statistics ds c l =
     (let cs = map concentration
                 [i \<leftarrow> recs. field c i = l \<and> field (alternate c) i \<in> set active]
      in if cs = [] then Inl NoMatchingItems
         else Inr (Min (set cs), sum_list cs / real (length cs), Max (set cs))) \<and>
   (distinct (map fst (labels ds (alternate c))) \<and> z \<in> set active \<longrightarrow>
      (\<exists>ds1. toggle_active_label (alternate c) z ds = (Inr PyNone, ds1) \<and>
         get_active_labels ds1 (alternate c) = Inr (filter (\<lambda>k. k \<noteq> z) active) \<and>
         table_statistics ds1 c l =
           spec_min_avg_max (map concentration
             [i \<leftarrow> recs. field c i = l \<and> field (alternate c) i \<in> set active \<and>
                          field (alternate c) i \<noteq> z])))"
proof (intro conjI impI)
  assume d: "data ds = Some recs" and n: "recs \<noteq> []"
    and g: "get_active_labels ds (alternate c) = Inr active"
  from table_statistics_loaded [OF d n g]
  show "table_statistics ds c l =
     (let cs = map concentration
                 [i \<leftarrow> recs. field c i = l \<and> field (alternate c) i \<in> set active]
      in if cs = [] then Inl NoMatchingItems
         else Inr (Min (set cs), sum_list cs / real (length cs), Max (set cs)))"
    by (simp add: spec_min_avg_max_def Let_def)
  assume "distinct (map fst (labels ds (alternate c))) \<and> z \<in> set active"
  then have dist: "distinct (map fst (labels ds (alternate c)))" and z: "z \<in> set active"
    by simp_all
  from g d n have a: "active = map fst (filter snd (labels ds (alternate c)))"
    by (simp add: get_active_labels_loaded)
  from dist z a have m: "map_of (labels ds (alternate c)) z = Some True"
    by (simp add: active_is_True)
  let ?t = "ds\<lparr>labels := (labels ds)(alternate c :=
               AList.update z False (labels ds (alternate c)))\<rparr>"
  have t: "toggle_active_label (alternate c) z ds = (Inr PyNone, ?t)"
    using d n m by (simp add: toggle_active_label_def not_data_def)
  have d1: "data ?t = Some recs" using d by simp
  have g1: "get_active_labels ?t (alternate c) = Inr (filter (\<lambda>k. k \<noteq> z) active)"
    using get_active_labels_loaded [OF d1 n, of "alternate c"] a
      active_after_update_False [OF dist, of z] by simp
  have "table_statistics ?t c l =
           spec_min_avg_max (map concentration
             [i \<leftarrow> recs. field c i = l \<and> field (alternate c) i \<in> set active \<and>
                          field (alternate c) i \<noteq> z])"
    using table_statistics_loaded [OF d1 n g1, of l] by simp
  with t g1 show "\<exists>ds1. toggle_active_label (alternate c) z ds = (Inr PyNone, ds1) \<and>
         get_active_labels ds1 (alternate c) = Inr (filter (\<lambda>k. k \<noteq> z) active) \<and>
         table_statistics ds1 c l =
           spec_min_avg_max (map concentration
             [i \<leftarrow> recs. field c i = l \<and> field (alternate c) i \<in> set active \<and>
                          field (alternate c) i \<noteq> z])"
    by blast
qed

lemma toggle_active_label_distinct:
  "distinct (map fst (labels ds c')) \<Longrightarrow>
   distinct (map fst (labels (snd (toggle_active_label c d ds)) c'))"
  by (auto simp: toggle_active_label_def AList.distinct_update split: option.splits)

theorem table_statistics_selection_witness:
  "data example_dataset = Some example_rows \<and> example_rows \<noteq> [] \<and>
   get_active_labels example_dataset (alternate TIME_OF_DAY) = Inr [''10001'', ''10002''] \<and>
   distinct (map fst (labels example_dataset (alternate TIME_OF_DAY))) \<and>
   ''10002'' \<in> set [''10001'', ''10002''] \<and>
   table_statistics example_dataset TIME_OF_DAY ''Evening'' = Inr (3, 3, 3) \<and>
   fst (toggle_active_label ZIP_CODE ''10002'' example_dataset) = Inr PyNone \<and>
   get_active_labels (snd (toggle_active_label ZIP_CODE ''10002'' example_dataset)) ZIP_CODE
     = Inr [''10001''] \<and>
   table_statistics (snd (toggle_active_label ZIP_CODE ''10002'' example_dataset))
     TIME_OF_DAY ''Evening'' = Inl NoMatchingItems \<and>
   table_statistics (snd (toggle_active_label ZIP_CODE ''10002'' example_dataset))
     TIME_OF_DAY ''Morning'' = Inr (5, 6, 7)"
proof -
  have a: "alternate TIME_OF_DAY = ZIP_CODE" by (simp add: alternate_def)
  have d: "data example_dataset = Some example_rows" by (simp add: example_dataset_simps)
  have n: "example_rows \<noteq> []" by (simp add: example_rows_def)
  have g: "get_active_labels example_dataset (alternate TIME_OF_DAY) = Inr [''10001'', ''10002'']"
    by (simp add: a get_active_labels_def example_dataset_simps)
  have k: "distinct (map fst (labels example_dataset (alternate TIME_OF_DAY)))"
    by (simp add: a example_dataset_simps)
  note th = table_statistics_selection [OF d n g, of _ "''10002''"]
  from th [of "''Evening''"]
  have b: "table_statistics example_dataset TIME_OF_DAY ''Evening'' = Inr (3, 3, 3)"
    by (simp add: a example_rows_def concentration_def)
  from th [of "''Evening''"] k
  obtain ds1 where t: "toggle_active_label ZIP_CODE ''10002'' example_dataset = (Inr PyNone, ds1)"
    and g1: "get_active_labels ds1 ZIP_CODE = Inr [''10001'']"
    and e: "table_statistics ds1 TIME_OF_DAY ''Evening'' = Inl NoMatchingItems"
    by (auto simp: a example_rows_def concentration_def spec_min_avg_max_def)
  from th [of "''Morning''"] k t
  have m: "table_statistics ds1 TIME_OF_DAY ''Morning'' = Inr (5, 6, 7)"
    by (auto simp: a example_rows_def concentration_def spec_min_avg_max_def)
  from d n g k b t g1 e m show ?thesis by simp
qed

subsection \<open>The cross table\<close>

lemma rjust_NA: "rjust 8 ''N/A'' = ''     N/A''"
  by (simp add: rjust_def eval_nat_numeral)

lemma cell_text_code:
  "data ds = Some recs \<Longrightarrow> recs \<noteq> [] \<Longrightarrow>
   (case cross_table_statistics ds j k of
      Inr statistics \<Rightarrow> Inr (rjust 8 (fmt (pick stat statistics)))
    | Inl NoMatchingItems \<Rightarrow> Inr (rjust 8 ''N/A'')
    | Inl e \<Rightarrow> Inl e) = Inr (cell_text fmt stat recs j k)"
  by (simp add: cross_table_statistics_loaded spec_min_avg_max_def cell_text_def Let_def
      rjust_NA)

lemma cross_cells_loaded:
  "data ds = Some recs \<Longrightarrow> recs \<noteq> [] \<Longrightarrow>
   cross_cells fmt stat ds j ks = Inr (concat (map (cell_text fmt stat recs j) ks))"
proof (induction ks)
  case Nil
  show ?case by simp
next
  case (Cons k ks)
  from Cons.IH [OF Cons.prems] cell_text_code [OF Cons.prems, where j = j and k = k and fmt = fmt and stat = stat]
  show ?case by (simp only: cross_cells.simps sum.case list.map concat.simps)
qed

lemma cross_rows_loaded:
  "data ds = Some recs \<Longrightarrow> recs \<noteq> [] \<Longrightarrow>
   get_active_labels ds TIME_OF_DAY = Inr ts \<Longrightarrow>
   cross_rows fmt stat ds js =
     Inr (concat (map (\<lambda>j. ljust 7 j @ concat (map (cell_text fmt stat recs j) ts)
                           @ [newline]) js))"
proof (induction js)
  case Nil
  show ?case by simp
next
  case (Cons j js)
  from Cons.IH [OF Cons.prems] Cons.prems(3) cross_cells_loaded [OF Cons.prems(1,2), where fmt = fmt and stat = stat and j = j and ks = ts]
  show ?case by simp
qed

text \<open>
  C6. On a loaded dataset, \<open>cross_table_statistics\<close> raises NoMatchingItems exactly
  when no record matches both labels. \<open>display_cross_table\<close> never raises: it prints
  the header line and one line for each active zip code, whose cells are, each on its own,
  the placeholder \<^verbatim>\<open>N/A\<close> (right-aligned to 8) when no record matches the cell's pair
  and the formatted statistic of that pair otherwise.
\<close>

theorem display_cross_table_placeholder:
  "data ds = Some recs \<Longrightarrow> recs \<noteq> [] \<Longrightarrow>
   get_active_labels ds ZIP_CODE = Inr zs \<Longrightarrow>
   get_active_labels ds TIME_OF_DAY = Inr ts \<Longrightarrow>
   (cross_table_statistics ds z t = Inl NoMatchingItems \<longleftrightarrow>
      [i \<leftarrow> recs. field ZIP_CODE i = z \<and> field TIME_OF_DAY i = t] = []) \<and>
   display_cross_table fmt stat ds =
     Inr ([newline] @ replicate 7 CHR '' '' @ concat (map (rjust 8) ts) @ [newline]
          @ concat (map (\<lambda>j. ljust 7 j @ concat (map (cell_text fmt stat recs j) ts)
                                @ [newline]) zs)) \<and>
   cell_text fmt stat recs z t =
     (if [i \<leftarrow> recs. field ZIP_CODE i = z \<and> field TIME_OF_DAY i = t] = []
      then ''     N/A''
      else case cross_table_statistics ds z t of
             Inr statistics \<Rightarrow> rjust 8 (fmt (pick stat statistics))
           | Inl e \<Rightarrow> [])"
proof (intro conjI)
  assume d: "data ds = Some recs" and n: "recs \<noteq> []"
    and gz: "get_active_labels ds ZIP_CODE = Inr zs"
    and gt: "get_active_labels ds TIME_OF_DAY = Inr ts"
  show "cross_table_statistics ds z t = Inl NoMatchingItems \<longleftrightarrow>
      [i \<leftarrow> recs. field ZIP_CODE i = z \<and> field TIME_OF_DAY i = t] = []"
    using d n by (simp add: cross_table_statistics_loaded spec_min_avg_max_def)
  show "display_cross_table fmt stat ds =
     Inr ([newline] @ replicate 7 CHR '' '' @ concat (map (rjust 8) ts) @ [newline]
          @ concat (map (\<lambda>j. ljust 7 j @ concat (map (cell_text fmt stat recs j) ts)
                                @ [newline]) zs))"
    using d n gz gt cross_rows_loaded [OF d n gt, where fmt = fmt and stat = stat and js = zs]
    by (simp add: display_cross_table_def not_data_def ljust_def)
  show "cell_text fmt stat recs z t =
     (if [i \<leftarrow> recs. field ZIP_CODE i = z \<and> field TIME_OF_DAY i = t] = []
      then ''     N/A''
      else case cross_table_statistics ds z t of
             Inr statistics \<Rightarrow> rjust 8 (fmt (pick stat statistics))
           | Inl e \<Rightarrow> [])"
    using d n by (simp add: cross_table_statistics_loaded spec_min_avg_max_def cell_text_def Let_def)
qed

lemma cell_text_example:
  "cell_text example_fmt Stats_AVG example_rows ''10001'' ''Morning'' = ''    6.00''"
  "cell_text example_fmt Stats_AVG example_rows ''10001'' ''Evening'' = ''     N/A''"
  "cell_text example_fmt Stats_AVG example_rows ''10002'' ''Morning'' = ''     N/A''"
  "cell_text example_fmt Stats_AVG example_rows ''10002'' ''Evening'' = ''    3.00''"
  by (simp_all add: cell_text_def example_rows_def concentration_def example_fmt_def
      rjust_def eval_nat_numeral)

theorem display_cross_table_placeholder_witness:
  "data example_dataset = Some example_rows \<and> example_rows \<noteq> [] \<and>
   get_active_labels example_dataset ZIP_CODE = Inr [''10001'', ''10002''] \<and>
   get_active_labels example_dataset TIME_OF_DAY = Inr [''Morning'', ''Evening''] \<and>
   cross_table_statistics example_dataset ''10001'' ''Evening'' = Inl NoMatchingItems \<and>
   display_cross_table example_fmt Stats_AVG example_dataset =
     Inr ([newline] @ ''        Morning Evening'' @ [newline]
          @ ''10001      6.00     N/A'' @ [newline]
          @ ''10002       N/A    3.00'' @ [newline])"
proof -
  have d: "data example_dataset = Some example_rows" by (simp add: example_dataset_simps)
  have n: "example_rows \<noteq> []" by (simp add: example_rows_def)
  have gz: "get_active_labels example_dataset ZIP_CODE = Inr [''10001'', ''10002'']"
    by (simp add: get_active_labels_def example_dataset_simps)
  have gt: "get_active_labels example_dataset TIME_OF_DAY = Inr [''Morning'', ''Evening'']"
    by (simp add: get_active_labels_def example_dataset_simps)
  note th = display_cross_table_placeholder [OF d n gz gt,
      where z = "''10001''" and t = "''Evening''" and fmt = example_fmt and stat = Stats_AVG]
  have e: "[i \<leftarrow> example_rows. field ZIP_CODE i = ''10001'' \<and> field TIME_OF_DAY i = ''Evening'']
           = []"
    by (simp add: example_rows_def)
  from th e have c: "cross_table_statistics example_dataset ''10001'' ''Evening'' = Inl NoMatchingItems"
    by simp
  from th have "display_cross_table example_fmt Stats_AVG example_dataset =
     Inr ([newline] @ ''        Morning Evening'' @ [newline]
          @ ''10001      6.00     N/A'' @ [newline]
          @ ''10002       N/A    3.00'' @ [newline])"
    by (simp add: cell_text_example rjust_def ljust_def eval_nat_numeral)
  with d n gz gt c show ?thesis by simp
qed

end
